theory Spec2Isabelle
  imports Main "HOL-Library.Sublist"
begin

section \<open>The startup script railway_simple_app.py\<close>

text \<open>
  The script is one module-level sequence of statements: three guarded imports, the
  construction and configuration of the application object, and a series of
  \<^verbatim>\<open>try ... except Exception\<close> blocks around calls into collaborators (the web
  framework, the ORM, the models and routes modules). The collaborators are not part of
  the script; each call into one of them is modelled by its outcome, which the
  \<open>world\<close> record supplies: either the call returns, or it raises an exception.
\<close>

subsection \<open>Exceptions, log entries, configuration values\<close>

text \<open>
  Every guard of the script is \<^verbatim>\<open>except Exception\<close>, so \<open>exn\<close> stands for the instances
  of \<^verbatim>\<open>Exception\<close>: \<open>Exn m\<close> is an exception raised by a collaborator, with
  \<^verbatim>\<open>str(e) = m\<close>; the other three are the exceptions the interpreter raises for the
  script's own expressions (\<^verbatim>\<open>int(s)\<close> on a string \<open>s\<close> that it does not read as an
  integer, a name that is read before it is bound, a missing dictionary key).
\<close>

datatype exn = Exn string | ValueError string | NameError string | KeyError string

text \<open>
  A log entry keeps the level and the fixed text of the message (without its leading
  pictogram); where the script formats the exception into the message, the entry carries
  the exception. \<open>Traceback e\<close> is \<^verbatim>\<open>logging.error(traceback.format_exc())\<close>.
\<close>

datatype log_entry = Info string | Warning string | Error string exn | Traceback exn

datatype cfg = CfgStr string | CfgBool bool | CfgInt int

text \<open>
  The steps of the startup sequence. The field \<open>steps\<close> of the state records, in order,
  the steps whose first statement was reached.
\<close>

datatype step =
    ConstructApp | ResolveDatabaseUrl | BindDatabase | ExposeHealth | ProbeConnection
  | CreateTables | SeedAdmin | ConfigureLogin | ConfigureMail | CreateUploadDir | ImportRoutes

subsection \<open>The database row and the state\<close>

text \<open>
  Modelled from the spec: the \<^verbatim>\<open>User\<close> entity is declared in the models module, which is
  not among the sources; the spec gives it the attributes username, name, role, email and
  a credential derived from the password by the entity's own method.
\<close>

record user =
  username :: string
  name :: string
  role :: string
  email :: string
  credential :: string

record app =
  logs :: "log_entry list"
  steps :: "step list"
  secret_key :: "string option"
  config :: "string \<rightharpoonup> cfg"
  users :: "user list"
  user_bound :: bool
  health_route :: bool

text \<open>
  The outcomes of the calls into collaborators, and the process environment.
  \<open>None\<close> means that the call returns, \<open>Some e\<close> that it raises \<open>e\<close>.
  \<open>user_set_password\<close> is the entity's password method: it raises or yields the credential.
  \<open>login_manager_init\<close> stands for lines 120 to 130 and \<open>mail_init\<close> for lines 146 and 147.
  \<open>builtin_int\<close> is the interpreter's \<^verbatim>\<open>int\<close> on a string: the integer it reads, or the
  exception it raises.
  Calls that the script makes outside every guard (constructing the application and the
  proxy middleware, registering the route, logging) are taken to return.
\<close>

record world =
  environ :: "string \<rightharpoonup> string"
  builtin_int :: "string \<Rightarrow> exn + int"
  import_flask :: "exn option"
  import_proxy_fix :: "exn option"
  import_models_db :: "exn option"
  db_init_app :: "exn option"
  db_engine_connect :: "exn option"
  import_user :: "exn option"
  import_other_models :: "exn option"
  db_create_all :: "exn option"
  user_query_first :: "exn option"
  user_new :: "exn option"
  user_set_password :: "string \<Rightarrow> exn + string"
  session_add :: "exn option"
  session_commit :: "exn option"
  import_flask_login :: "exn option"
  import_flask_mail :: "exn option"
  login_manager_init :: "exn option"
  mail_init :: "exn option"
  os_makedirs :: "string \<Rightarrow> exn option"
  import_routes :: "exn option"

subsection \<open>Statements\<close>

text \<open>
  A statement runs on a state and either completes (\<open>Inr\<close>) or raises (\<open>Inl\<close>); a raise
  keeps the state reached so far, since what a \<^verbatim>\<open>try\<close> body did before it raised is
  not undone.
\<close>

type_synonym stmt = "app \<Rightarrow> (exn \<times> app) + app"

definition call :: "exn option \<Rightarrow> stmt" where
  "call r s = (case r of Some e \<Rightarrow> Inl (e, s) | None \<Rightarrow> Inr s)"

definition log_info :: "string \<Rightarrow> stmt" where
  "log_info m s = Inr (s\<lparr>logs := logs s @ [Info m]\<rparr>)"

definition log_warning :: "string \<Rightarrow> stmt" where
  "log_warning m s = Inr (s\<lparr>logs := logs s @ [Warning m]\<rparr>)"

definition log_error :: "string \<Rightarrow> exn \<Rightarrow> stmt" where
  "log_error m e s = Inr (s\<lparr>logs := logs s @ [Error m e]\<rparr>)"

definition log_traceback :: "exn \<Rightarrow> stmt" where
  "log_traceback e s = Inr (s\<lparr>logs := logs s @ [Traceback e]\<rparr>)"

definition enter :: "step \<Rightarrow> stmt" where
  "enter st s = Inr (s\<lparr>steps := steps s @ [st]\<rparr>)"

fun block :: "stmt list \<Rightarrow> stmt" where
  "block [] s = Inr s"
| "block (c # cs) s = (case c s of Inl r \<Rightarrow> Inl r | Inr s' \<Rightarrow> block cs s')"

definition try_except :: "stmt \<Rightarrow> (exn \<Rightarrow> stmt) \<Rightarrow> stmt" where
  "try_except body handler s =
     (case body s of Inr s' \<Rightarrow> Inr s' | Inl (e, s') \<Rightarrow> handler e s')"

subsection \<open>Library functions on strings\<close>

text \<open>\<^verbatim>\<open>os.environ.get(key, default)\<close>\<close>

definition environ_get :: "world \<Rightarrow> string \<Rightarrow> string \<Rightarrow> string" where
  "environ_get w key dflt = (case environ w key of None \<Rightarrow> dflt | Some v \<Rightarrow> v)"

text \<open>\<^verbatim>\<open>s.startswith(p)\<close>\<close>

definition startswith :: "string \<Rightarrow> string \<Rightarrow> bool" where
  "startswith s p = prefix p s"

text \<open>\<^verbatim>\<open>s.replace(old, new, 1)\<close>: the leftmost occurrence of \<open>old\<close> is replaced.\<close>

fun replace1 :: "string \<Rightarrow> string \<Rightarrow> string \<Rightarrow> string" where
  "replace1 [] old new = (if old = [] then new else [])"
| "replace1 (c # cs) old new =
     (if prefix old (c # cs) then new @ drop (length old) (c # cs)
      else c # replace1 cs old new)"

text \<open>
  \<^verbatim>\<open>s.lower()\<close>, on the ASCII letters. (The method also maps letters outside ASCII, none
  of them to a letter of the three words that line 138 compares the result with, so the
  comparison comes out the same.)
\<close>

definition lower_char :: "char \<Rightarrow> char" where
  "lower_char c =
     (let n = (of_char c :: nat) in if 65 \<le> n \<and> n \<le> 90 then char_of (n + 32) else c)"

definition lower :: "string \<Rightarrow> string" where
  "lower s = map lower_char s"

subsection \<open>The import guard (lines 20 to 32)\<close>

definition import_guard :: "world \<Rightarrow> stmt" where
  "import_guard w =
     block [call (import_flask w), log_info ''Flask imported'',
            call (import_proxy_fix w), log_info ''ProxyFix imported'',
            call (import_models_db w), log_info ''Database imported'']"

subsection \<open>Application object and configuration (lines 35 to 54)\<close>

text \<open>
  Lines 35 to 41. Wrapping \<^verbatim>\<open>app.wsgi_app\<close> in the proxy middleware leaves the modelled
  state as it is.
\<close>

definition create_app :: "world \<Rightarrow> stmt" where
  "create_app w =
     block [enter ConstructApp,
            log_info ''Flask app created'',
            (\<lambda>s. Inr (s\<lparr>secret_key := Some (environ_get w ''SESSION_SECRET'' ''railway-key-2024'')\<rparr>)),
            log_info ''Basic config set'']"

text \<open>
  Lines 44 to 50: the connection string. \<^verbatim>\<open>not database_url\<close> holds for an unset
  variable and for the empty string.
\<close>

definition resolve_database_url :: "string option \<Rightarrow> string" where
  "resolve_database_url v =
     (let database_url =
            (case v of None \<Rightarrow> ''sqlite:///test.db''
             | Some u \<Rightarrow> if u = [] then ''sqlite:///test.db'' else u)
      in if startswith database_url ''postgres://''
         then replace1 database_url ''postgres://'' ''postgresql://''
         else database_url)"

definition database_config :: "world \<Rightarrow> stmt" where
  "database_config w =
     block [enter ResolveDatabaseUrl,
            (\<lambda>s. if environ w ''DATABASE_URL'' = None \<or> environ w ''DATABASE_URL'' = Some []
                 then log_warning ''Using SQLite fallback'' s else Inr s),
            (\<lambda>s. Inr (s\<lparr>config := (config s)
                 (''SQLALCHEMY_DATABASE_URI'' \<mapsto>
                    CfgStr (resolve_database_url (environ w ''DATABASE_URL'')),
                  ''SQLALCHEMY_TRACK_MODIFICATIONS'' \<mapsto> CfgBool False)\<rparr>)),
            log_info ''Database config set'']"

subsection \<open>Binding the database, the health route (lines 56 to 71)\<close>

definition initialize_database :: "world \<Rightarrow> stmt" where
  "initialize_database w =
     try_except
       (block [enter BindDatabase, call (db_init_app w), log_info ''Database initialized''])
       (log_error ''Database init failed: '')"

definition register_health :: stmt where
  "register_health = block [enter ExposeHealth, (\<lambda>s. Inr (s\<lparr>health_route := True\<rparr>))]"

text \<open>
  The handler of \<^verbatim>\<open>/health\<close>. \<open>jsonify\<close> is the framework's function; its argument says
  for each payload whether building the response raises (\<open>Some m\<close>, an exception with
  \<^verbatim>\<open>str(e) = m\<close>) or returns the response with that JSON body (\<open>None\<close>). The result is
  the pair of body and status code that the handler returns, or the exception that leaves it.
\<close>

type_synonym json_obj = "(string \<times> string) list"

definition health :: "(json_obj \<Rightarrow> string option) \<Rightarrow> exn + (json_obj \<times> nat)" where
  "health jsonify =
     (case jsonify [(''status'', ''healthy''), (''app'', ''running'')] of
        None \<Rightarrow> Inr ([(''status'', ''healthy''), (''app'', ''running'')], 200)
      | Some e \<Rightarrow>
          (case jsonify [(''status'', ''unhealthy''), (''error'', e)] of
             None \<Rightarrow> Inr ([(''status'', ''unhealthy''), (''error'', e)], 500)
           | Some e' \<Rightarrow> Inl (Exn e')))"

subsection \<open>Inside the application context (lines 76 to 168)\<close>

definition test_connection :: "world \<Rightarrow> stmt" where
  "test_connection w =
     try_except
       (block [enter ProbeConnection, call (db_engine_connect w),
               log_info ''Database connection OK''])
       (log_error ''Database connection failed: '')"

text \<open>
  Line 90 imports five names one after the other, \<^verbatim>\<open>User\<close> first: the name \<^verbatim>\<open>User\<close>
  is bound as soon as its own import has succeeded, also when a later name fails.
\<close>

definition create_tables :: "world \<Rightarrow> stmt" where
  "create_tables w =
     try_except
       (block [enter CreateTables,
               call (import_user w),
               (\<lambda>s. Inr (s\<lparr>user_bound := True\<rparr>)),
               call (import_other_models w),
               log_info ''Models imported'',
               call (db_create_all w),
               log_info ''Database tables created''])
       (log_error ''Table creation failed: '')"

text \<open>
  Lines 100 to 110. \<^verbatim>\<open>User.query.filter_by(username='edson.lemes').first()\<close> is the first
  stored row with that username, if there is one.
\<close>

definition admin_user :: "string \<Rightarrow> user" where
  "admin_user h =
     \<lparr>username = ''edson.lemes'', name = ''Edson Lemes'', role = ''admin'',
      email = ''edson.lemes@senai.br'', credential = h\<rparr>"

definition seed_admin :: "world \<Rightarrow> stmt" where
  "seed_admin w s =
     (if \<not> user_bound s then Inl (NameError ''User'', s)
      else case user_query_first w of
             Some e \<Rightarrow> Inl (e, s)
           | None \<Rightarrow>
               (case find (\<lambda>u. username u = ''edson.lemes'') (users s) of
                  Some found \<Rightarrow> Inr s
                | None \<Rightarrow>
                    (case user_new w of
                       Some e \<Rightarrow> Inl (e, s)
                     | None \<Rightarrow>
                         (case user_set_password w ''senai103103'' of
                            Inl e \<Rightarrow> Inl (e, s)
                          | Inr h \<Rightarrow>
                              (case session_add w of
                                 Some e \<Rightarrow> Inl (e, s)
                               | None \<Rightarrow>
                                   (case session_commit w of
                                      Some e \<Rightarrow> Inl (e, s)
                                    | None \<Rightarrow>
                                        log_info ''Admin user created''
                                          (s\<lparr>users := users s @ [admin_user h]\<rparr>)))))))"

definition create_admin_user :: "world \<Rightarrow> stmt" where
  "create_admin_user w =
     try_except (block [enter SeedAdmin, seed_admin w])
       (log_error ''Admin user creation failed: '')"

text \<open>Lines 135 to 144: the dictionary passed to \<^verbatim>\<open>app.config.update\<close>.\<close>

definition mail_settings :: "world \<Rightarrow> exn + (string \<times> cfg) list" where
  "mail_settings w =
     (case builtin_int w (environ_get w ''MAIL_PORT'' ''587'') of
        Inl e \<Rightarrow> Inl e
      | Inr port \<Rightarrow>
          Inr [(''MAIL_SERVER'', CfgStr (environ_get w ''MAIL_SERVER'' ''localhost'')),
               (''MAIL_PORT'', CfgInt port),
               (''MAIL_USE_TLS'',
                  CfgBool (lower (environ_get w ''MAIL_USE_TLS'' ''true'')
                             \<in> set [''true'', ''on'', ''1''])),
               (''MAIL_USERNAME'', CfgStr (environ_get w ''MAIL_USERNAME'' [])),
               (''MAIL_PASSWORD'', CfgStr (environ_get w ''MAIL_PASSWORD'' [])),
               (''MAIL_DEFAULT_SENDER'',
                  CfgStr (environ_get w ''MAIL_DEFAULT_SENDER'' ''noreply@senai.br'')),
               (''UPLOAD_FOLDER'', CfgStr ''/tmp/uploads''),
               (''MAX_CONTENT_LENGTH'', CfgInt (16 * 1024 * 1024))])"

definition update_mail_config :: "world \<Rightarrow> stmt" where
  "update_mail_config w s =
     (case mail_settings w of
        Inl e \<Rightarrow> Inl (e, s)
      | Inr kvs \<Rightarrow> Inr (s\<lparr>config := fold (\<lambda>(k, v) m. m(k \<mapsto> v)) kvs (config s)\<rparr>))"

text \<open>
  Line 151. The key was set by the update just before, so the lookup finds a string.
\<close>

definition make_upload_dir :: "world \<Rightarrow> stmt" where
  "make_upload_dir w s =
     (case config s ''UPLOAD_FOLDER'' of
        None \<Rightarrow> Inl (KeyError ''UPLOAD_FOLDER'', s)
      | Some (CfgStr p) \<Rightarrow> call (os_makedirs w p) s
      | Some other \<Rightarrow> Inl (Exn ''TypeError'', s))"

definition configure_extensions :: "world \<Rightarrow> stmt" where
  "configure_extensions w =
     try_except
       (block [enter ConfigureLogin,
               call (import_flask_login w),
               call (import_flask_mail w),
               call (login_manager_init w),
               log_info ''Login manager configured'',
               enter ConfigureMail,
               update_mail_config w,
               call (mail_init w),
               log_info ''Mail configured'',
               enter CreateUploadDir,
               make_upload_dir w,
               log_info ''Upload folder created'',
               enter ImportRoutes,
               call (import_routes w),
               log_info ''SENAI routes imported successfully''])
       (\<lambda>e. block [log_error ''Extensions setup failed: '' e, log_traceback e])"

definition app_context :: "world \<Rightarrow> stmt" where
  "app_context w =
     try_except
       (block [log_info ''Initializing in app context...'',
               test_connection w,
               create_tables w,
               create_admin_user w,
               configure_extensions w,
               log_info ''APPLICATION READY!''])
       (\<lambda>e. block [log_error ''App context initialization failed: '' e, log_traceback e])"

subsection \<open>The module\<close>

text \<open>
  A process starts with the rows the database holds and ends in one of three ways: it
  left through \<^verbatim>\<open>sys.exit(1)\<close> in the import guard, an exception reached the top level,
  or the module was loaded to its end. The development entry point (lines 170 to 173),
  which starts the server after the module body, is not part of the model.
\<close>

datatype outcome = Exited nat app | Crashed exn app | Ready app

definition process_start :: "user list \<Rightarrow> app" where
  "process_start db =
     \<lparr>logs = [Info ''STARTING RAILWAY APP...''], steps = [], secret_key = None,
      config = Map.empty, users = db, user_bound = False, health_route = False\<rparr>"

definition module_body :: "world \<Rightarrow> stmt" where
  "module_body w =
     block [create_app w, database_config w, initialize_database w, register_health,
            app_context w]"

definition startup :: "world \<Rightarrow> user list \<Rightarrow> outcome" where
  "startup w db =
     (case import_guard w (process_start db) of
        Inl (e, s) \<Rightarrow> Exited 1 (s\<lparr>logs := logs s @ [Error ''Import error: '' e]\<rparr>)
      | Inr s \<Rightarrow>
          (case module_body w s of
             Inl (e, s') \<Rightarrow> Crashed e s'
           | Inr s' \<Rightarrow> Ready s'))"

fun final :: "outcome \<Rightarrow> app" where
  "final (Exited n s) = s"
| "final (Crashed e s) = s"
| "final (Ready s) = s"

text \<open>Restarting the process: each run starts on the rows the run before it left.\<close>

fun restarts :: "world list \<Rightarrow> user list \<Rightarrow> user list" where
  "restarts [] db = db"
| "restarts (w # ws) db = restarts ws (users (final (startup w db)))"

definition admin_count :: "user list \<Rightarrow> nat" where
  "admin_count db = length (filter (\<lambda>u. username u = ''edson.lemes'') db)"

subsection \<open>Conditions on the world, and some worlds\<close>

definition imports_ok :: "world \<Rightarrow> bool" where
  "imports_ok w =
     (import_flask w = None \<and> import_proxy_fix w = None \<and> import_models_db w = None)"

text \<open>
  The extensions block (lines 115 to 156) has four parts. No statement of the
  login-manager part (lines 116 to 132) raises; none of the mail part (lines 135 to 148);
  none of the upload-directory part (line 151).
\<close>

definition login_ok :: "world \<Rightarrow> bool" where
  "login_ok w =
     (import_flask_login w = None \<and> import_flask_mail w = None
      \<and> login_manager_init w = None)"

definition mail_ok :: "world \<Rightarrow> bool" where
  "mail_ok w =
     ((case builtin_int w (environ_get w ''MAIL_PORT'' ''587'') of
         Inl e \<Rightarrow> False | Inr p \<Rightarrow> True)
      \<and> mail_init w = None)"

definition upload_ok :: "world \<Rightarrow> bool" where
  "upload_ok w = (os_makedirs w ''/tmp/uploads'' = None)"

text \<open>
  The steps of the extensions block up to and including the first part in which a
  statement raises.
\<close>

definition extension_steps :: "world \<Rightarrow> step list" where
  "extension_steps w =
     (if \<not> login_ok w then [ConfigureLogin]
      else if \<not> mail_ok w then [ConfigureLogin, ConfigureMail]
      else if \<not> upload_ok w then [ConfigureLogin, ConfigureMail, CreateUploadDir]
      else [ConfigureLogin, ConfigureMail, CreateUploadDir, ImportRoutes])"

definition first_steps :: "step list" where
  "first_steps =
     [ConstructApp, ResolveDatabaseUrl, BindDatabase, ExposeHealth, ProbeConnection,
      CreateTables, SeedAdmin]"

text \<open>
  A world with an empty environment in which every call returns. \<^verbatim>\<open>int\<close> is given on
  the strings that this world and its variants below pass to it: it reads the default
  port \<^verbatim>\<open>587\<close>, and \<^verbatim>\<open>abc\<close> is a \<^verbatim>\<open>ValueError\<close>.
\<close>

definition quiet_world :: world where
  "quiet_world =
     \<lparr>environ = Map.empty,
      builtin_int = (\<lambda>s. if s = ''587'' then Inr 587 else Inl (ValueError s)),
      import_flask = None, import_proxy_fix = None,
      import_models_db = None, db_init_app = None, db_engine_connect = None,
      import_user = None, import_other_models = None, db_create_all = None,
      user_query_first = None, user_new = None,
      user_set_password = (\<lambda>p. Inr (''hash of '' @ p)), session_add = None,
      session_commit = None, import_flask_login = None, import_flask_mail = None,
      login_manager_init = None, mail_init = None, os_makedirs = (\<lambda>p. None),
      import_routes = None\<rparr>"

text \<open>The same world with \<^verbatim>\<open>MAIL_PORT=abc\<close> in the environment.\<close>

definition bad_mail_port :: world where
  "bad_mail_port = quiet_world\<lparr>environ := [''MAIL_PORT'' \<mapsto> ''abc'']\<rparr>"

text \<open>A world whose database is out of reach: every call into it raises.\<close>

definition failing_database :: world where
  "failing_database =
     quiet_world\<lparr>db_init_app := Some (Exn ''no engine''),
       db_engine_connect := Some (Exn ''connection refused''),
       db_create_all := Some (Exn ''connection refused''),
       user_query_first := Some (Exn ''connection refused'')\<rparr>"

definition no_flask :: world where
  "no_flask = quiet_world\<lparr>import_flask := Some (Exn ''No module named flask'')\<rparr>"

text \<open>A stored account with the admin's username and fields of its own.\<close>

definition stored_admin :: user where
  "stored_admin =
     \<lparr>username = ''edson.lemes'', name = ''E. Lemes'', role = ''teacher'',
      email = ''lemes@example.org'', credential = ''old credential''\<rparr>"

text \<open>A \<open>jsonify\<close> that raises on the success payload only.\<close>

definition failing_once :: "json_obj \<Rightarrow> string option" where
  "failing_once p =
     (if p = [(''status'', ''healthy''), (''app'', ''running'')] then Some ''boom'' else None)"

section \<open>What each part of the script does to the state\<close>

text \<open>
  A guard whose handler only logs always completes: the handler's log entries are added to
  the state in which the body stopped.
\<close>

lemma try_except_log_error:
  "try_except body (log_error m) s =
     Inr (case body s of Inr s' \<Rightarrow> s' | Inl (e, s') \<Rightarrow> s'\<lparr>logs := logs s' @ [Error m e]\<rparr>)"
  by (simp add: try_except_def log_error_def split: sum.splits prod.splits)

lemma try_except_log_traceback:
  "try_except body (\<lambda>e. block [log_error m e, log_traceback e]) s =
     Inr (case body s of Inr s' \<Rightarrow> s'
          | Inl (e, s') \<Rightarrow> s'\<lparr>logs := logs s' @ [Error m e, Traceback e]\<rparr>)"
  by (simp add: try_except_def log_error_def log_traceback_def split: sum.splits prod.splits)

lemma initialize_database_result:
  "\<exists>s'. initialize_database w s = Inr s' \<and> steps s' = steps s @ [BindDatabase]
     \<and> users s' = users s \<and> secret_key s' = secret_key s \<and> config s' = config s"
  by (simp add: initialize_database_def try_except_log_error call_def log_info_def enter_def
      split: option.splits)

lemma test_connection_result:
  "\<exists>s'. test_connection w s = Inr s' \<and> steps s' = steps s @ [ProbeConnection]
     \<and> users s' = users s \<and> secret_key s' = secret_key s \<and> config s' = config s"
  by (simp add: test_connection_def try_except_log_error call_def log_info_def enter_def
      split: option.splits)

lemma create_tables_result:
  "\<exists>s'. create_tables w s = Inr s' \<and> steps s' = steps s @ [CreateTables]
     \<and> users s' = users s \<and> secret_key s' = secret_key s \<and> config s' = config s"
  by (simp add: create_tables_def try_except_log_error call_def log_info_def enter_def
      split: option.splits)

lemma create_admin_user_result:
  "\<exists>s'. create_admin_user w s = Inr s' \<and> steps s' = steps s @ [SeedAdmin]
     \<and> secret_key s' = secret_key s \<and> config s' = config s
     \<and> (users s' = users s \<or>
         (find (\<lambda>u. username u = ''edson.lemes'') (users s) = None
          \<and> (\<exists>h. users s' = users s @ [admin_user h])))"
  by (auto simp add: create_admin_user_def seed_admin_def try_except_log_error call_def
      log_info_def enter_def split: option.splits sum.splits)

lemma mail_settings_keys:
  "mail_settings w = Inr kvs \<Longrightarrow>
     fold (\<lambda>(k, v) m. m(k \<mapsto> v)) kvs c ''UPLOAD_FOLDER'' = Some (CfgStr ''/tmp/uploads'')"
  "mail_settings w = Inr kvs \<Longrightarrow>
     fold (\<lambda>(k, v) m. m(k \<mapsto> v)) kvs c ''SQLALCHEMY_DATABASE_URI''
       = c ''SQLALCHEMY_DATABASE_URI''"
  by (auto simp add: mail_settings_def split: sum.splits)

lemma mail_settings_Inl:
  "mail_settings w = Inl e \<Longrightarrow> builtin_int w (environ_get w ''MAIL_PORT'' ''587'') = Inl e"
  by (simp add: mail_settings_def split: sum.splits)

lemma mail_settings_Inr:
  "mail_settings w = Inr kvs \<Longrightarrow>
     (case builtin_int w (environ_get w ''MAIL_PORT'' ''587'') of
        Inl e \<Rightarrow> False | Inr p \<Rightarrow> True)"
  by (simp add: mail_settings_def split: sum.splits)

lemma configure_extensions_result:
  "\<exists>s'. configure_extensions w s = Inr s' \<and> users s' = users s
     \<and> secret_key s' = secret_key s
     \<and> config s' ''SQLALCHEMY_DATABASE_URI'' = config s ''SQLALCHEMY_DATABASE_URI''
     \<and> steps s' = steps s @ extension_steps w"
proof -
  note defs = configure_extensions_def try_except_log_traceback call_def enter_def
    log_info_def update_mail_config_def make_upload_dir_def extension_steps_def
    login_ok_def mail_ok_def upload_ok_def
  show ?thesis
  proof (cases "import_flask_login w")
    case Some
    then show ?thesis by (simp add: defs)
  next
    case a: None
    show ?thesis
    proof (cases "import_flask_mail w")
      case Some
      with a show ?thesis by (simp add: defs)
    next
      case b: None
      show ?thesis
      proof (cases "login_manager_init w")
        case Some
        with a b show ?thesis by (simp add: defs)
      next
        case c: None
        show ?thesis
        proof (cases "mail_settings w")
          case (Inl e)
          with a b c show ?thesis by (simp add: defs mail_settings_Inl [OF Inl])
        next
          case d: (Inr kvs)
          note m = mail_settings_keys [OF d] mail_settings_Inr [OF d]
          show ?thesis
          proof (cases "mail_init w")
            case Some
            with a b c d show ?thesis by (simp add: defs m)
          next
            case e: None
            show ?thesis
            proof (cases "os_makedirs w ''/tmp/uploads''")
              case Some
              with a b c d e show ?thesis by (simp add: defs m)
            next
              case f: None
              show ?thesis
              proof (cases "import_routes w")
                case Some
                with a b c d e f show ?thesis by (simp add: defs m)
              next
                case None
                with a b c d e f show ?thesis by (simp add: defs m)
              qed
            qed
          qed
        qed
      qed
    qed
  qed
qed

lemma extension_steps_distinct:
  "distinct (extension_steps w) \<and> extension_steps w \<noteq> []
   \<and> set (extension_steps w)
       \<subseteq> {ConfigureLogin, ConfigureMail, CreateUploadDir, ImportRoutes}"
  by (simp add: extension_steps_def)

text \<open>The application context block: the four guarded steps in a row.\<close>

lemma app_context_result:
  "\<exists>s'. app_context w s = Inr s' \<and> secret_key s' = secret_key s
     \<and> config s' ''SQLALCHEMY_DATABASE_URI'' = config s ''SQLALCHEMY_DATABASE_URI''
     \<and> (users s' = users s \<or>
         (find (\<lambda>u. username u = ''edson.lemes'') (users s) = None
          \<and> (\<exists>h. users s' = users s @ [admin_user h])))
     \<and> steps s' = steps s @ [ProbeConnection, CreateTables, SeedAdmin] @ extension_steps w
     \<and> last (logs s') = Info ''APPLICATION READY!''"
proof -
  define s0 where "s0 = s\<lparr>logs := logs s @ [Info ''Initializing in app context...'']\<rparr>"
  obtain s1 where s1: "test_connection w s0 = Inr s1" "steps s1 = steps s0 @ [ProbeConnection]"
    "users s1 = users s0" "secret_key s1 = secret_key s0" "config s1 = config s0"
    using test_connection_result [of w s0] by blast
  obtain s2 where s2: "create_tables w s1 = Inr s2" "steps s2 = steps s1 @ [CreateTables]"
    "users s2 = users s1" "secret_key s2 = secret_key s1" "config s2 = config s1"
    using create_tables_result [of w s1] by blast
  obtain s3 where s3: "create_admin_user w s2 = Inr s3" "steps s3 = steps s2 @ [SeedAdmin]"
    "secret_key s3 = secret_key s2" "config s3 = config s2"
    "users s3 = users s2 \<or>
       (find (\<lambda>u. username u = ''edson.lemes'') (users s2) = None
        \<and> (\<exists>h. users s3 = users s2 @ [admin_user h]))"
    using create_admin_user_result [of w s2] by blast
  obtain s4 where s4: "configure_extensions w s3 = Inr s4" "users s4 = users s3"
    "secret_key s4 = secret_key s3"
    "config s4 ''SQLALCHEMY_DATABASE_URI'' = config s3 ''SQLALCHEMY_DATABASE_URI''"
    "steps s4 = steps s3 @ extension_steps w"
    using configure_extensions_result [of w s3] by blast
  have run: "app_context w s = Inr (s4\<lparr>logs := logs s4 @ [Info ''APPLICATION READY!'']\<rparr>)"
    by (simp add: app_context_def try_except_log_traceback log_info_def s0_def [symmetric]
        s1(1) s2(1) s3(1) s4(1))
  have st: "steps s4 = steps s @ [ProbeConnection, CreateTables, SeedAdmin] @ extension_steps w"
    by (simp add: s4(5) s3(2) s2(2) s1(2) s0_def)
  have u: "users s4 = users s \<or>
         (find (\<lambda>u. username u = ''edson.lemes'') (users s) = None
          \<and> (\<exists>h. users s4 = users s @ [admin_user h]))"
    using s3(5) by (simp add: s4(2) s2(3) s1(3) s0_def)
  show ?thesis
    using u by (simp add: run s4(3) s3(3) s2(4) s1(4) s4(4) s3(4) s2(5) s1(5) st s0_def)
qed

lemma create_app_result:
  "\<exists>s'. create_app w s = Inr s' \<and> steps s' = steps s @ [ConstructApp]
     \<and> users s' = users s
     \<and> secret_key s' = Some (environ_get w ''SESSION_SECRET'' ''railway-key-2024'')"
  by (simp add: create_app_def enter_def log_info_def)

lemma database_config_result:
  "\<exists>s'. database_config w s = Inr s' \<and> steps s' = steps s @ [ResolveDatabaseUrl]
     \<and> users s' = users s \<and> secret_key s' = secret_key s
     \<and> config s' ''SQLALCHEMY_DATABASE_URI''
         = Some (CfgStr (resolve_database_url (environ w ''DATABASE_URL'')))"
  by (simp add: database_config_def enter_def log_info_def log_warning_def)

lemma register_health_result:
  "\<exists>s'. register_health s = Inr s' \<and> steps s' = steps s @ [ExposeHealth]
     \<and> users s' = users s \<and> secret_key s' = secret_key s \<and> config s' = config s"
  by (simp add: register_health_def enter_def)

lemma module_body_result:
  "\<exists>s'. module_body w s = Inr s'
     \<and> secret_key s' = Some (environ_get w ''SESSION_SECRET'' ''railway-key-2024'')
     \<and> config s' ''SQLALCHEMY_DATABASE_URI''
         = Some (CfgStr (resolve_database_url (environ w ''DATABASE_URL'')))
     \<and> (users s' = users s \<or>
         (find (\<lambda>u. username u = ''edson.lemes'') (users s) = None
          \<and> (\<exists>h. users s' = users s @ [admin_user h])))
     \<and> steps s' = steps s @ first_steps @ extension_steps w
     \<and> last (logs s') = Info ''APPLICATION READY!''"
proof -
  obtain s1 where s1: "create_app w s = Inr s1" "steps s1 = steps s @ [ConstructApp]"
    "users s1 = users s"
    "secret_key s1 = Some (environ_get w ''SESSION_SECRET'' ''railway-key-2024'')"
    using create_app_result [of w s] by blast
  obtain s2 where s2: "database_config w s1 = Inr s2"
    "steps s2 = steps s1 @ [ResolveDatabaseUrl]" "users s2 = users s1"
    "secret_key s2 = secret_key s1"
    "config s2 ''SQLALCHEMY_DATABASE_URI''
       = Some (CfgStr (resolve_database_url (environ w ''DATABASE_URL'')))"
    using database_config_result [of w s1] by blast
  obtain s3 where s3: "initialize_database w s2 = Inr s3"
    "steps s3 = steps s2 @ [BindDatabase]" "users s3 = users s2"
    "secret_key s3 = secret_key s2" "config s3 = config s2"
    using initialize_database_result [of w s2] by blast
  obtain s4 where s4: "register_health s3 = Inr s4" "steps s4 = steps s3 @ [ExposeHealth]"
    "users s4 = users s3" "secret_key s4 = secret_key s3" "config s4 = config s3"
    using register_health_result [of s3] by blast
  obtain s5 where s5: "app_context w s4 = Inr s5" "secret_key s5 = secret_key s4"
    "config s5 ''SQLALCHEMY_DATABASE_URI'' = config s4 ''SQLALCHEMY_DATABASE_URI''"
    "users s5 = users s4 \<or>
       (find (\<lambda>u. username u = ''edson.lemes'') (users s4) = None
        \<and> (\<exists>h. users s5 = users s4 @ [admin_user h]))"
    "steps s5 = steps s4 @ [ProbeConnection, CreateTables, SeedAdmin] @ extension_steps w"
    "last (logs s5) = Info ''APPLICATION READY!''"
    using app_context_result [of w s4] by blast
  have run: "module_body w s = Inr s5"
    by (simp add: module_body_def s1(1) s2(1) s3(1) s4(1) s5(1))
  have st: "steps s5 = steps s @ first_steps @ extension_steps w"
    by (simp add: s5(5) s4(2) s3(2) s2(2) s1(2) first_steps_def)
  have us: "users s4 = users s"
    by (simp add: s4(3) s3(3) s2(3) s1(3))
  show ?thesis
    using s5(4)
    by (simp add: run s5(2) s4(4) s3(4) s2(4) s1(4) s5(3) s4(5) s3(5) s2(5) s5(6) st us)
qed

section \<open>The whole startup\<close>

lemma import_guard_ok:
  "imports_ok w \<Longrightarrow>
     \<exists>s'. import_guard w s = Inr s' \<and> steps s' = steps s \<and> users s' = users s"
  by (simp add: imports_ok_def import_guard_def call_def log_info_def)

lemma import_guard_fail:
  "\<not> imports_ok w \<Longrightarrow>
     \<exists>e s'. import_guard w s = Inl (e, s')
       \<and> Some e \<in> {import_flask w, import_proxy_fix w, import_models_db w}
       \<and> steps s' = steps s \<and> users s' = users s \<and> secret_key s' = secret_key s
       \<and> health_route s' = health_route s"
  by (cases "import_flask w"; cases "import_proxy_fix w"; cases "import_models_db w")
     (simp_all add: imports_ok_def import_guard_def call_def log_info_def)

lemma startup_ready:
  assumes "imports_ok w"
  shows "\<exists>s. startup w db = Ready s
     \<and> secret_key s = Some (environ_get w ''SESSION_SECRET'' ''railway-key-2024'')
     \<and> config s ''SQLALCHEMY_DATABASE_URI''
         = Some (CfgStr (resolve_database_url (environ w ''DATABASE_URL'')))
     \<and> (users s = db \<or>
         (find (\<lambda>u. username u = ''edson.lemes'') db = None
          \<and> (\<exists>h. users s = db @ [admin_user h])))
     \<and> steps s = first_steps @ extension_steps w
     \<and> last (logs s) = Info ''APPLICATION READY!''"
proof -
  obtain s0 where s0: "import_guard w (process_start db) = Inr s0"
    "steps s0 = steps (process_start db)" "users s0 = users (process_start db)"
    using import_guard_ok [OF assms, of "process_start db"] by blast
  obtain s where s: "module_body w s0 = Inr s"
    "secret_key s = Some (environ_get w ''SESSION_SECRET'' ''railway-key-2024'')"
    "config s ''SQLALCHEMY_DATABASE_URI''
         = Some (CfgStr (resolve_database_url (environ w ''DATABASE_URL'')))"
    "users s = users s0 \<or>
         (find (\<lambda>u. username u = ''edson.lemes'') (users s0) = None
          \<and> (\<exists>h. users s = users s0 @ [admin_user h]))"
    "steps s = steps s0 @ first_steps @ extension_steps w"
    "last (logs s) = Info ''APPLICATION READY!''"
    using module_body_result [of w s0] by blast
  have "startup w db = Ready s"
    by (simp add: startup_def s0(1) s(1))
  then show ?thesis
    using s(4) by (simp add: s(2) s(3) s(5) s(6) s0(2) s0(3) process_start_def)
qed

lemma startup_exits:
  assumes "\<not> imports_ok w"
  shows "\<exists>e s. startup w db = Exited 1 s \<and> last (logs s) = Error ''Import error: '' e
     \<and> Some e \<in> {import_flask w, import_proxy_fix w, import_models_db w}
     \<and> steps s = [] \<and> users s = db \<and> secret_key s = None \<and> \<not> health_route s"
proof -
  obtain e s0 where s0: "import_guard w (process_start db) = Inl (e, s0)"
    "Some e \<in> {import_flask w, import_proxy_fix w, import_models_db w}"
    "steps s0 = steps (process_start db)" "users s0 = users (process_start db)"
    "secret_key s0 = secret_key (process_start db)"
    "health_route s0 = health_route (process_start db)"
    using import_guard_fail [OF assms, of "process_start db"] by blast
  have "startup w db = Exited 1 (s0\<lparr>logs := logs s0 @ [Error ''Import error: '' e]\<rparr>)"
    by (simp add: startup_def s0(1))
  then show ?thesis
    using s0(2) by (simp add: s0(3) s0(4) s0(5) s0(6) process_start_def)
qed

lemma startup_users:
  "users (final (startup w db)) = db \<or>
     (find (\<lambda>u. username u = ''edson.lemes'') db = None
      \<and> (\<exists>h. users (final (startup w db)) = db @ [admin_user h]))"
proof (cases "imports_ok w")
  case True
  from startup_ready [OF True, of db] show ?thesis by auto
next
  case False
  from startup_exits [OF False, of db] show ?thesis by auto
qed

lemma admin_count_unchanged_or_one:
  "users (final (startup w db)) = db \<or>
     (find (\<lambda>u. username u = ''edson.lemes'') db = None
      \<and> (\<exists>h. users (final (startup w db)) = db @ [admin_user h])) \<Longrightarrow>
   admin_count (users (final (startup w db))) = admin_count db
     \<or> (admin_count db = 0 \<and> admin_count (users (final (startup w db))) = 1)"
  by (auto simp add: admin_count_def admin_user_def find_None_iff filter_empty_conv)

lemma restarts_admin_count:
  "admin_count (restarts ws db) = admin_count db
     \<or> (admin_count db = 0 \<and> admin_count (restarts ws db) = 1)"
proof (induction ws arbitrary: db)
  case Nil
  show ?case by simp
next
  case (Cons w ws)
  have one: "admin_count (users (final (startup w db))) = admin_count db
     \<or> (admin_count db = 0 \<and> admin_count (users (final (startup w db))) = 1)"
    by (rule admin_count_unchanged_or_one) (rule startup_users)
  from Cons.IH [of "users (final (startup w db))"] one show ?case
    by auto
qed

lemma replace1_prefix:
  "prefix old s \<Longrightarrow> replace1 s old new = new @ drop (length old) s"
  by (cases s) simp_all

text \<open>The handler answers 200 exactly when building the success payload does not raise.\<close>

lemma health_healthy_iff:
  "health jsonify = Inr ([(''status'', ''healthy''), (''app'', ''running'')], 200)
     \<longleftrightarrow> jsonify [(''status'', ''healthy''), (''app'', ''running'')] = None"
  by (auto simp add: health_def split: option.splits)

section \<open>The claims\<close>

subsection \<open>C1: a step that raises and the steps after it\<close>

text \<open>
  C1, as stated, fails: with \<^verbatim>\<open>MAIL_PORT=abc\<close> the mail configuration raises a
  \<^verbatim>\<open>ValueError\<close>, which the guard of the extensions block catches and logs, and the two
  steps after it in that block, creating the upload directory and importing the routes,
  are never reached.
\<close>

theorem mail_failure_skips_later_steps:
  "Error ''Extensions setup failed: '' (ValueError ''abc'')
     \<in> set (logs (final (startup bad_mail_port [])))
   \<and> steps (final (startup bad_mail_port [])) =
       [ConstructApp, ResolveDatabaseUrl, BindDatabase, ExposeHealth, ProbeConnection,
        CreateTables, SeedAdmin, ConfigureLogin, ConfigureMail]"
  by code_simp

text \<open>
  C1, amended: once the three imports of the guard have succeeded, database init, the
  connection probe, table creation and admin seeding each have a guard of their own: if
  one of them raises, every subsequent step is still reached. Login-manager
  configuration, mail configuration, creation of the upload directory and the route
  import share one guard: they are reached in this order up to and including the first
  of them in which a statement raises, and the ones after it are skipped.
\<close>

theorem guarded_steps_continue:
  assumes "imports_ok w"
  shows "steps (final (startup w db)) =
     [ConstructApp, ResolveDatabaseUrl, BindDatabase, ExposeHealth, ProbeConnection,
      CreateTables, SeedAdmin] @ extension_steps w"
  using startup_ready [OF assms, of db] by (auto simp add: first_steps_def)

text \<open>
  C1, witness: with a database on which the binding, the probe, the table creation and the
  admin query all raise, every step is still reached.
\<close>

theorem guarded_steps_continue_witness:
  "imports_ok failing_database
   \<and> steps (final (startup failing_database [])) =
       [ConstructApp, ResolveDatabaseUrl, BindDatabase, ExposeHealth, ProbeConnection,
        CreateTables, SeedAdmin, ConfigureLogin, ConfigureMail, CreateUploadDir,
        ImportRoutes]"
proof -
  have h: "imports_ok failing_database"
    by code_simp
  have e: "extension_steps failing_database
      = [ConfigureLogin, ConfigureMail, CreateUploadDir, ImportRoutes]"
    by code_simp
  from guarded_steps_continue [OF h, of "[]"] h e show ?thesis
    by simp
qed

subsection \<open>C2: the admin account is created at most once\<close>

text \<open>
  C2: over any number of restarts, in any worlds, the number of accounts named
  \<^verbatim>\<open>edson.lemes\<close> either stays what it was or goes from zero to one; and a single run
  changes the stored rows only when the query for that username finds none, by adding
  the one admin row.
\<close>

theorem admin_created_at_most_once:
  "(admin_count (restarts ws db) = admin_count db
      \<or> (admin_count db = 0 \<and> admin_count (restarts ws db) = 1))
   \<and> (users (final (startup w db)) = db
      \<or> (find (\<lambda>u. username u = ''edson.lemes'') db = None
          \<and> (\<exists>h. users (final (startup w db)) = db @ [admin_user h])))"
  using restarts_admin_count [of ws db] startup_users [of w db] by blast

subsection \<open>C3: an existing admin account is left as it is\<close>

text \<open>
  C3: if a row with the username \<^verbatim>\<open>edson.lemes\<close> is stored when the process starts, the
  stored rows after the startup are the rows before it: no field of the account is
  changed and no row is added or removed.
\<close>

theorem existing_admin_unchanged:
  assumes "u \<in> set db" and "username u = ''edson.lemes''"
  shows "users (final (startup w db)) = db"
proof -
  from assms have "find (\<lambda>u. username u = ''edson.lemes'') db \<noteq> None"
    by (auto simp add: find_None_iff)
  with startup_users [of w db] show ?thesis
    by blast
qed

text \<open>C3, witness: a stored account whose name, role, email and credential differ from the
  seeded ones keeps them.\<close>

theorem existing_admin_unchanged_witness:
  "stored_admin \<in> set [stored_admin] \<and> username stored_admin = ''edson.lemes''
   \<and> users (final (startup quiet_world [stored_admin])) = [stored_admin]"
proof -
  have a: "stored_admin \<in> set [stored_admin]"
    by simp
  have b: "username stored_admin = ''edson.lemes''"
    by (simp add: stored_admin_def)
  from existing_admin_unchanged [OF a b, of quiet_world] a b show ?thesis
    by simp
qed

subsection \<open>C4: the deprecated scheme prefix\<close>

text \<open>
  C4, as stated, fails for the empty string: it does not start with \<^verbatim>\<open>postgres://\<close>,
  and it is not used as it is, since line 45 replaces it by the SQLite URL.
\<close>

theorem empty_database_url_not_used:
  "\<not> startswith [] ''postgres://''
   \<and> resolve_database_url (Some []) = ''sqlite:///test.db''"
  by (simp add: resolve_database_url_def startswith_def)

text \<open>
  C4, amended: for a value of \<^verbatim>\<open>DATABASE_URL\<close> that starts with \<^verbatim>\<open>postgres://\<close>, the
  resolved connection string is \<^verbatim>\<open>postgresql://\<close> followed by the rest of the value; a
  non-empty value that does not start with \<^verbatim>\<open>postgres://\<close> is used as it is.
\<close>

theorem database_url_normalised:
  "(startswith u ''postgres://'' \<longrightarrow>
      resolve_database_url (Some u) = ''postgresql://'' @ drop (length ''postgres://'') u)
   \<and> (u \<noteq> [] \<and> \<not> startswith u ''postgres://'' \<longrightarrow> resolve_database_url (Some u) = u)"
proof (intro conjI impI)
  assume p: "startswith u ''postgres://''"
  then have "u \<noteq> []"
    by (auto simp add: startswith_def)
  with p show "resolve_database_url (Some u)
      = ''postgresql://'' @ drop (length ''postgres://'') u"
    using replace1_prefix [of "''postgres://''" u "''postgresql://''"]
    by (simp add: resolve_database_url_def startswith_def)
next
  assume "u \<noteq> [] \<and> \<not> startswith u ''postgres://''"
  then show "resolve_database_url (Some u) = u"
    by (simp add: resolve_database_url_def)
qed

text \<open>C4, witness: one value with the deprecated prefix and one without.\<close>

theorem database_url_normalised_witness:
  "startswith ''postgres://u:p@host/db'' ''postgres://''
   \<and> resolve_database_url (Some ''postgres://u:p@host/db'') = ''postgresql://u:p@host/db''
   \<and> ''mysql://host/db'' \<noteq> [] \<and> \<not> startswith ''mysql://host/db'' ''postgres://''
   \<and> resolve_database_url (Some ''mysql://host/db'') = ''mysql://host/db''"
  using database_url_normalised [of "''postgres://u:p@host/db''"]
    database_url_normalised [of "''mysql://host/db''"]
  by (simp add: startswith_def)

subsection \<open>C5: the fallback to the local database file\<close>

text \<open>
  C5: when \<^verbatim>\<open>DATABASE_URL\<close> is unset or empty, the resolved connection string is
  \<^verbatim>\<open>sqlite:///test.db\<close>, and that is what lines 44 to 54 store in the configuration.
\<close>

theorem sqlite_fallback:
  assumes "environ w ''DATABASE_URL'' = None \<or> environ w ''DATABASE_URL'' = Some []"
  shows "resolve_database_url (environ w ''DATABASE_URL'') = ''sqlite:///test.db''
     \<and> (\<exists>s'. database_config w s = Inr s'
          \<and> config s' ''SQLALCHEMY_DATABASE_URI'' = Some (CfgStr ''sqlite:///test.db''))"
proof -
  from assms have "resolve_database_url (environ w ''DATABASE_URL'') = ''sqlite:///test.db''"
    by (auto simp add: resolve_database_url_def startswith_def)
  with database_config_result [of w s] show ?thesis
    by auto
qed

text \<open>C5, witness: the empty environment.\<close>

theorem sqlite_fallback_witness:
  "environ quiet_world ''DATABASE_URL'' = None
   \<and> resolve_database_url (environ quiet_world ''DATABASE_URL'') = ''sqlite:///test.db''
   \<and> config (final (startup quiet_world [])) ''SQLALCHEMY_DATABASE_URI''
       = Some (CfgStr ''sqlite:///test.db'')"
proof -
  have h: "environ quiet_world ''DATABASE_URL'' = None"
    by (simp add: quiet_world_def)
  have c: "config (final (startup quiet_world [])) ''SQLALCHEMY_DATABASE_URI''
       = Some (CfgStr ''sqlite:///test.db'')"
    by code_simp
  from sqlite_fallback [of quiet_world] h c show ?thesis
    by simp
qed

subsection \<open>C6: the health handler\<close>

text \<open>
  C6, as stated, fails: the handler builds the failure response with the same
  \<open>jsonify\<close>, outside any guard. When that call raises as well, the handler returns no
  response with status 500; the exception leaves it.
\<close>

theorem health_failure_payload_may_raise:
  "health (\<lambda>p. Some ''boom'') = Inl (Exn ''boom'')"
  by (simp add: health_def)

text \<open>
  C6, amended: the handler returns status 200 with the body
  \<^verbatim>\<open>{"status":"healthy","app":"running"}\<close> when building that response does not raise;
  when it raises an exception with message \<open>m\<close>, the handler returns status 500 with the
  body \<^verbatim>\<open>{"status":"unhealthy","error":m}\<close> provided building this second response does
  not raise, and otherwise the second exception leaves the handler.
\<close>

theorem health_responses:
  "(jsonify [(''status'', ''healthy''), (''app'', ''running'')] = None \<longrightarrow>
      health jsonify = Inr ([(''status'', ''healthy''), (''app'', ''running'')], 200))
   \<and> (jsonify [(''status'', ''healthy''), (''app'', ''running'')] = Some m
      \<and> jsonify [(''status'', ''unhealthy''), (''error'', m)] = None \<longrightarrow>
      health jsonify = Inr ([(''status'', ''unhealthy''), (''error'', m)], 500))
   \<and> (jsonify [(''status'', ''healthy''), (''app'', ''running'')] = Some m
      \<and> jsonify [(''status'', ''unhealthy''), (''error'', m)] = Some m' \<longrightarrow>
      health jsonify = Inl (Exn m'))"
  by (simp add: health_def)

text \<open>C6, witness: a \<open>jsonify\<close> that never raises, and one that raises on the success
  payload only.\<close>

theorem health_responses_witness:
  "health (\<lambda>p. None) = Inr ([(''status'', ''healthy''), (''app'', ''running'')], 200)
   \<and> failing_once [(''status'', ''healthy''), (''app'', ''running'')] = Some ''boom''
   \<and> failing_once [(''status'', ''unhealthy''), (''error'', ''boom'')] = None
   \<and> health failing_once = Inr ([(''status'', ''unhealthy''), (''error'', ''boom'')], 500)"
  using health_responses [of "\<lambda>p. None"] health_responses [of failing_once "''boom''"]
  by (simp add: failing_once_def)

subsection \<open>C7: the import guard\<close>

text \<open>
  C7: if one of the three imports raises, the process logs the import error and leaves
  with exit code 1 before any step of the startup was reached (no application object, no
  route, the stored rows untouched); if the three imports succeed, the process does not
  leave through that exit.
\<close>

theorem import_failure_exits:
  "(\<not> imports_ok w \<longrightarrow>
      (\<exists>e s. startup w db = Exited 1 s
         \<and> last (logs s) = Error ''Import error: '' e
         \<and> Some e \<in> {import_flask w, import_proxy_fix w, import_models_db w}
         \<and> steps s = [] \<and> users s = db \<and> secret_key s = None \<and> \<not> health_route s))
   \<and> (imports_ok w \<longrightarrow> (\<forall>n s. startup w db \<noteq> Exited n s))"
proof (intro conjI impI)
  assume "\<not> imports_ok w"
  then show "\<exists>e s. startup w db = Exited 1 s
         \<and> last (logs s) = Error ''Import error: '' e
         \<and> Some e \<in> {import_flask w, import_proxy_fix w, import_models_db w}
         \<and> steps s = [] \<and> users s = db \<and> secret_key s = None \<and> \<not> health_route s"
    by (rule startup_exits)
next
  assume "imports_ok w"
  from startup_ready [OF this, of db] show "\<forall>n s. startup w db \<noteq> Exited n s"
    by auto
qed

text \<open>C7, witness: a world without the web framework, and the world in which every call
  returns.\<close>

theorem import_failure_exits_witness:
  "\<not> imports_ok no_flask
   \<and> last (logs (final (startup no_flask [])))
       = Error ''Import error: '' (Exn ''No module named flask'')
   \<and> steps (final (startup no_flask [])) = []
   \<and> imports_ok quiet_world
   \<and> startup quiet_world [] \<noteq> Exited 1 (final (startup quiet_world []))"
proof -
  have a: "\<not> imports_ok no_flask"
    by code_simp
  have b: "imports_ok quiet_world"
    by code_simp
  have c: "last (logs (final (startup no_flask [])))
       = Error ''Import error: '' (Exn ''No module named flask'')"
    by code_simp
  from import_failure_exits [of no_flask "[]"] import_failure_exits [of quiet_world "[]"]
    a b c show ?thesis
    by auto
qed

subsection \<open>C8: the order of the steps\<close>

text \<open>
  C8, as stated, fails: the liveness endpoint is not exposed last. Line 64 registers the
  route right after the database binding and before the connection probe, so in a run
  in which nothing raises it is the fourth step, and the route import is the last.
\<close>

theorem health_route_registered_fourth:
  "steps (final (startup quiet_world [])) =
     [ConstructApp, ResolveDatabaseUrl, BindDatabase, ExposeHealth, ProbeConnection,
      CreateTables, SeedAdmin, ConfigureLogin, ConfigureMail, CreateUploadDir, ImportRoutes]"
  by code_simp

text \<open>
  C8, amended: once the three imports of the guard have succeeded, the steps are reached
  in this order, each once: construction and base configuration of the application,
  resolution of the database URL, binding of the database, registration of the liveness
  endpoint, connection probe, table creation, admin seeding, and then login-manager
  configuration, mail configuration, creation of the upload directory and route import
  up to and including the first of these four in which a statement raises. The liveness
  endpoint is registered fourth, right after the database binding, and is never the last
  step.
\<close>

theorem startup_order:
  assumes "imports_ok w"
  shows "steps (final (startup w db)) =
       [ConstructApp, ResolveDatabaseUrl, BindDatabase, ExposeHealth, ProbeConnection,
        CreateTables, SeedAdmin] @ extension_steps w
     \<and> distinct (steps (final (startup w db)))
     \<and> last (steps (final (startup w db))) \<noteq> ExposeHealth"
proof -
  have s: "steps (final (startup w db)) = first_steps @ extension_steps w"
    using startup_ready [OF assms, of db] by auto
  have d: "distinct (extension_steps w)" and n: "extension_steps w \<noteq> []"
    and e: "set (extension_steps w)
       \<subseteq> {ConfigureLogin, ConfigureMail, CreateUploadDir, ImportRoutes}"
    using extension_steps_distinct [of w] by simp_all
  have "distinct (steps (final (startup w db)))"
    using d e by (auto simp add: s first_steps_def)
  moreover have "last (steps (final (startup w db))) \<in> set (extension_steps w)"
    using n by (simp add: s)
  then have "last (steps (final (startup w db))) \<noteq> ExposeHealth"
    using e by auto
  ultimately show ?thesis
    by (simp add: s first_steps_def)
qed

text \<open>
  C8, witness: in the world in which every call returns, and in the one with
  \<^verbatim>\<open>MAIL_PORT=abc\<close>, where the mail configuration raises.
\<close>

theorem startup_order_witness:
  "imports_ok quiet_world
   \<and> steps (final (startup quiet_world [stored_admin])) =
       [ConstructApp, ResolveDatabaseUrl, BindDatabase, ExposeHealth, ProbeConnection,
        CreateTables, SeedAdmin, ConfigureLogin, ConfigureMail, CreateUploadDir, ImportRoutes]
   \<and> imports_ok bad_mail_port
   \<and> steps (final (startup bad_mail_port [stored_admin])) =
       [ConstructApp, ResolveDatabaseUrl, BindDatabase, ExposeHealth, ProbeConnection,
        CreateTables, SeedAdmin, ConfigureLogin, ConfigureMail]"
proof -
  have h: "imports_ok quiet_world"
    by code_simp
  have e: "extension_steps quiet_world
      = [ConfigureLogin, ConfigureMail, CreateUploadDir, ImportRoutes]"
    by code_simp
  have h': "imports_ok bad_mail_port"
    by code_simp
  have e': "extension_steps bad_mail_port = [ConfigureLogin, ConfigureMail]"
    by code_simp
  from startup_order [OF h, of "[stored_admin]"] startup_order [OF h', of "[stored_admin]"]
    h e h' e' show ?thesis
    by simp
qed

subsection \<open>C10: the default secret key\<close>

text \<open>
  C10: when \<^verbatim>\<open>SESSION_SECRET\<close> is unset and the import guard is passed, the module is
  loaded to its end and the secret key of the application is the constant
  \<^verbatim>\<open>railway-key-2024\<close>.
\<close>

theorem default_secret_key:
  assumes "imports_ok w" and "environ w ''SESSION_SECRET'' = None"
  shows "\<exists>s. startup w db = Ready s \<and> secret_key s = Some ''railway-key-2024''"
  using startup_ready [OF assms(1), of db] assms(2) by (auto simp add: environ_get_def)

text \<open>C10, witness: the empty environment.\<close>

theorem default_secret_key_witness:
  "imports_ok quiet_world \<and> environ quiet_world ''SESSION_SECRET'' = None
   \<and> secret_key (final (startup quiet_world [])) = Some ''railway-key-2024''"
proof -
  have a: "imports_ok quiet_world"
    by code_simp
  have b: "environ quiet_world ''SESSION_SECRET'' = None"
    by (simp add: quiet_world_def)
  from default_secret_key [OF a b, of "[]"] a b show ?thesis
    by auto
qed

end
